theory Spec2Isabelle
  imports Main
begin

section \<open>JavaScript values\<close>

text \<open>
  The adapter is TypeScript glue over a web framework, so the embedding needs a small
  universe of JavaScript values. A plain object is the table of its own properties;
  functions and class instances are known by an identity only. Numbers are integers
  here (no NaN, no fractions).
\<close>

datatype jsval =
    Undefined
  | Null
  | Bool bool
  | Num int
  | Str string
  | Obj "(string \<times> jsval) list"
  | Arr "jsval list"
  | Fn nat
  | Inst nat
  | Exn string

definition TypeError :: jsval where
  "TypeError = Exn ''TypeError''"

text \<open>JavaScript truthiness, as used by \<open>if (x)\<close>, \<open>!x\<close>, \<open>x || y\<close> and \<open>x ? a : b\<close>.\<close>

fun truthy :: "jsval \<Rightarrow> bool" where
  "truthy Undefined = False"
| "truthy Null = False"
| "truthy (Bool b) = b"
| "truthy (Num n) = (n \<noteq> 0)"
| "truthy (Str s) = (s \<noteq> [])"
| "truthy (Obj fs) = True"
| "truthy (Arr xs) = True"
| "truthy (Fn f) = True"
| "truthy (Inst a) = True"
| "truthy (Exn m) = True"

text \<open>
  Property read \<open>v[k]\<close>. What a value has beyond the own properties of a plain object
  comes from the language: the properties an object inherits along its prototype chain
  (\<open>toString\<close> of every object), the properties of strings, arrays and functions
  (\<open>length\<close>, the methods), and those of class instances. The embedding takes this
  part of the language as a parameter \<open>proto\<close>, which gives the value of \<open>v[k]\<close> where
  \<open>v\<close> has no own property \<open>k\<close> in its table (\<open>undefined\<close> when there is none);
  every result holds for any such \<open>proto\<close>. Reading a property of \<open>undefined\<close> or
  \<open>null\<close> throws a TypeError (\<open>Inl\<close> carries a thrown error); reading a property of
  any other value returns (accessor properties that throw are not modelled).
\<close>

type_synonym prototypes = "jsval \<Rightarrow> string \<Rightarrow> jsval"

definition lookup :: "prototypes \<Rightarrow> jsval \<Rightarrow> string \<Rightarrow> jsval" where
  "lookup proto v k =
     (case v of
        Obj fs \<Rightarrow> (case map_of fs k of Some w \<Rightarrow> w | None \<Rightarrow> proto v k)
      | _ \<Rightarrow> proto v k)"

definition getProp :: "prototypes \<Rightarrow> jsval \<Rightarrow> string \<Rightarrow> jsval + jsval" where
  "getProp proto v k =
     (if v = Undefined \<or> v = Null then Inl TypeError else Inr (lookup proto v k))"

text \<open>
  Array store \<open>args[i] = v\<close> on a JavaScript array: inside the array the slot is
  overwritten; beyond its end the array grows to length \<open>i + 1\<close> and the slots in
  between are holes, which read as \<open>undefined\<close> (and are \<open>undefined\<close> once the array is
  spread into a call).
\<close>

definition array_set :: "jsval list \<Rightarrow> nat \<Rightarrow> jsval \<Rightarrow> jsval list" where
  "array_set xs i v =
     (if i < length xs then xs[i := v]
      else xs @ replicate (i - length xs) Undefined @ [v])"

section \<open>Parameter extraction (express.ts, lines 110-157)\<close>

text \<open>
  Modelled from the spec: the enum \<open>ParameterType\<close> and the interface
  \<open>ParameterConfiguration\<close> are declared in \<open>./meta\<close>, which is not among the sources.
  The members are the eight the \<open>switch\<close> of \<open>extractParameters\<close> names (the spec's
  sourceKind REQUEST, RESPONSE, NEXT, PATH_PARAM, QUERY, BODY, HEADER, COOKIE); a
  declaration has an optional binding name, a positional index and a kind.
\<close>

datatype ParameterType =
  RESPONSE | REQUEST | NEXT | PARAMS | QUERY | BODY | HEADERS | COOKIES

record ParameterConfiguration =
  name :: "string option"
  index :: nat
  ptype :: ParameterType

text \<open>
  \<^verbatim>\<open>const param = paramType ? source[paramType] || source : source
  return name ? param[name] : param\<close>
  An optional string argument is truthy when it is given and not empty.
\<close>

definition getParam ::
  "prototypes \<Rightarrow> jsval \<Rightarrow> string option \<Rightarrow> string option \<Rightarrow> jsval + jsval"
where
  "getParam proto source paramType name' =
     (case (case paramType of
              None \<Rightarrow> Inr source
            | Some t \<Rightarrow>
                if t \<noteq> [] then
                  (case getProp proto source t of
                     Inl e \<Rightarrow> Inl e
                   | Inr sub \<Rightarrow> Inr (if truthy sub then sub else source))
                else Inr source) of
        Inl e \<Rightarrow> Inl e
      | Inr param \<Rightarrow>
          (case name' of
             None \<Rightarrow> Inr param
           | Some n \<Rightarrow> if n \<noteq> [] then getProp proto param n else Inr param))"

text \<open>The body of the \<open>switch (type)\<close>: the value stored at \<open>args[index]\<close>.\<close>

fun switch_type ::
  "prototypes \<Rightarrow> jsval \<Rightarrow> jsval \<Rightarrow> jsval \<Rightarrow> ParameterConfiguration \<Rightarrow> jsval + jsval"
where
  "switch_type proto req res next p =
     (case ptype p of
        RESPONSE \<Rightarrow> Inr res
      | REQUEST \<Rightarrow> getParam proto req None (name p)
      | NEXT \<Rightarrow> Inr next
      | PARAMS \<Rightarrow> getParam proto req (Some ''params'') (name p)
      | QUERY \<Rightarrow> getParam proto req (Some ''query'') (name p)
      | BODY \<Rightarrow> getParam proto req (Some ''body'') (name p)
      | HEADERS \<Rightarrow> getParam proto req (Some ''headers'') (name p)
      | COOKIES \<Rightarrow> getParam proto req (Some ''cookies'') (name p))"

text \<open>The \<open>for ... of params\<close> loop, with the array built so far.\<close>

fun extract_loop ::
  "prototypes \<Rightarrow> jsval \<Rightarrow> jsval \<Rightarrow> jsval \<Rightarrow> ParameterConfiguration list \<Rightarrow> jsval list \<Rightarrow>
   jsval + jsval list"
where
  "extract_loop proto req res next [] args = Inr args"
| "extract_loop proto req res next (p # ps) args =
     (case switch_type proto req res next p of
        Inl e \<Rightarrow> Inl e
      | Inr v \<Rightarrow> extract_loop proto req res next ps (array_set args (index p) v))"

text \<open>\<open>params\<close> has the default value \<open>[]\<close>, taken when the caller passes \<open>undefined\<close>.\<close>

definition extractParameters ::
  "prototypes \<Rightarrow> jsval \<Rightarrow> jsval \<Rightarrow> jsval \<Rightarrow> ParameterConfiguration list option \<Rightarrow>
   jsval + jsval list"
where
  "extractParameters proto req res next params =
     extract_loop proto req res next (case params of None \<Rightarrow> [] | Some ps \<Rightarrow> ps) []"

section \<open>Calls into user code and the trace of the adapter\<close>

text \<open>
  What a call into controller or middleware code gives back: a thrown error (\<open>Inl\<close>), an
  immediate value, or a promise, described by how it settles.
\<close>

datatype settle = Fulfils jsval | Rejects jsval | Pending

datatype result = Value jsval | Promise settle

text \<open>
  The response object, the continuation \<open>next\<close> and the \<open>new\<close> operator belong to the
  framework and the language. The embedding records every call the adapter makes to them,
  in order, as a trace; the calls return normally. Callbacks attached to a promise run
  after the synchronous part, so their events follow it in the trace.
\<close>

datatype callee = Handler_use | Handler_self

datatype event =
    CallMethod string "jsval list"
  | SetStatus int
  | Send jsval
  | CallNext jsval "jsval list"
  | New nat nat
  | Apply callee jsval "jsval list"

fun isSend :: "event \<Rightarrow> bool" where
  "isSend (Send v) = True"
| "isSend e = False"

fun isNext :: "event \<Rightarrow> bool" where
  "isNext (CallNext f vs) = True"
| "isNext e = False"

text \<open>The addresses of the objects a trace constructs, and the \<open>this\<close> values it applies handlers to.\<close>

fun constructed :: "event list \<Rightarrow> nat list" where
  "constructed [] = []"
| "constructed (New c a # es) = a # constructed es"
| "constructed (e # es) = constructed es"

fun receivers :: "event list \<Rightarrow> jsval list" where
  "receivers [] = []"
| "receivers (Apply c this args # es) = this # receivers es"
| "receivers (e # es) = receivers es"

text \<open>\<open>promise.catch(next)\<close>: on rejection, \<open>next\<close> is called with the reason.\<close>

definition catch_next :: "settle \<Rightarrow> jsval \<Rightarrow> event list" where
  "catch_next p next = (case p of Rejects e \<Rightarrow> [CallNext next [e]] | _ \<Rightarrow> [])"

section \<open>The generated route handler (express.ts, lines 77-105)\<close>

text \<open>
  A controller is the table of its methods; \<open>controller[methodName].call(controller,
  ...args)\<close> throws a TypeError when there is no such method. The response is the object
  handed to the controller together with the value \<open>res.headersSent\<close> has when the handler
  reads it (after the method has returned, or when its promise has resolved).
\<close>

type_synonym ExpressClass = "string \<Rightarrow> (jsval list \<Rightarrow> jsval + result) option"

record Response =
  ref :: jsval
  headersSent :: bool

text \<open>
  The handler returns its trace and either the error it throws (\<open>Inl\<close>) or the value it
  returns, which is \<open>result\<close> itself. The \<open>status\<close> argument is optional; \<open>if (status)\<close>
  holds for a number other than 0.
\<close>

definition routeHandler ::
  "prototypes \<Rightarrow> ExpressClass \<Rightarrow> string \<Rightarrow> ParameterConfiguration list option \<Rightarrow>
   int option \<Rightarrow> jsval \<Rightarrow> Response \<Rightarrow> jsval \<Rightarrow> event list \<times> (jsval + result)"
where
  "routeHandler proto controller methodName params status req res next =
     (case extractParameters proto req (ref res) next params of
        Inl e \<Rightarrow> ([], Inl e)
      | Inr args \<Rightarrow>
          (case controller methodName of
             None \<Rightarrow> ([], Inl TypeError)
           | Some method \<Rightarrow>
               (case method args of
                  Inl e \<Rightarrow> ([CallMethod methodName args], Inl e)
                | Inr (Promise p) \<Rightarrow>
                    (CallMethod methodName args #
                       (case p of
                          Fulfils r \<Rightarrow>
                            (if \<not> headersSent res \<and> r \<noteq> Undefined then
                               (case status of
                                  None \<Rightarrow> []
                                | Some s \<Rightarrow> if s \<noteq> 0 then [SetStatus s] else []) @ [Send r]
                             else [])
                        | Rejects e \<Rightarrow> catch_next (Rejects e) next
                        | Pending \<Rightarrow> []),
                     Inr (Promise p))
                | Inr (Value v) \<Rightarrow>
                    (CallMethod methodName args #
                       (if v \<noteq> Undefined then
                          (if \<not> headersSent res then
                             (case status of
                                None \<Rightarrow> []
                              | Some s \<Rightarrow> if s \<noteq> 0 then [SetStatus s] else []) @ [Send v]
                           else [])
                        else []),
                     Inr (Value v)))))"

section \<open>The middleware normaliser (lines 231-269)\<close>

text \<open>
  A function called with a \<open>this\<close> value and arguments. A middleware reference is
  described by what the adapter inspects of it: whether it is falsy, whether it is a
  function, its own \<open>use\<close> property, its \<open>prototype.use\<close>, and what calling or
  constructing it does. \<open>Falsy\<close> stands for \<open>undefined\<close> (and any other falsy value),
  \<open>Object\<close> for a truthy value that is not a function, with its \<open>use\<close> method if it has
  one. A truthy \<open>use\<close> is taken to be a function.
\<close>

type_synonym behaviour = "jsval \<Rightarrow> jsval list \<Rightarrow> jsval + result"

record func =
  fid :: nat
  call :: behaviour
  ownUse :: "behaviour option"
  protoUse :: "behaviour option"
  constructorThrows :: "jsval option"

datatype Middleware = Falsy | Object "behaviour option" | Function func

text \<open>
  What \<open>getMiddlewareInstance\<close> resolves to: \<open>undefined\<close>, the function itself, or the
  object made by \<open>new\<close>, which inherits \<open>use\<close> from the prototype. The state is the number
  of objects allocated so far; \<open>new\<close> takes the next address, also when the constructor
  body then throws. The value of \<open>new\<close> is the object it allocates (a constructor that
  returns some other object in its place is not modelled).
\<close>

datatype resolved = NoInstance | TheFunction func | NewObject nat behaviour

definition getMiddlewareInstance ::
  "Middleware \<Rightarrow> nat \<Rightarrow> event list \<times> (jsval + resolved) \<times> nat"
where
  "getMiddlewareInstance middleware h =
     (case middleware of
        Function f \<Rightarrow>
          (case protoUse f of
             Some u \<Rightarrow>
               (case constructorThrows f of
                  Some e \<Rightarrow> ([New (fid f) h], Inl e, Suc h)
                | None \<Rightarrow> ([New (fid f) h], Inr (NewObject h u), Suc h))
           | None \<Rightarrow> ([], Inr (TheFunction f), h))
      | _ \<Rightarrow> ([], Inr NoInstance, h))"

text \<open>
  \<^verbatim>\<open>const result = typeof handler === 'function' ? handler.apply(instance, args) : instance
  if (result instanceof Promise) { result.catch(next) }\<close>
  inside the \<open>try\<close>, whose \<open>catch\<close> calls \<open>next(err)\<close>.
\<close>

definition apply_handler ::
  "callee \<Rightarrow> behaviour \<Rightarrow> jsval \<Rightarrow> jsval list \<Rightarrow> jsval \<Rightarrow> event list"
where
  "apply_handler c handler this args next =
     Apply c this args #
       (case handler this args of
          Inl err \<Rightarrow> [CallNext next [err]]
        | Inr (Promise p) \<Rightarrow> catch_next p next
        | Inr (Value v) \<Rightarrow> [])"

text \<open>
  The asynchronous function returns a promise; the model gives its trace, how the promise
  settles and the new allocation state. \<open>next\<close> is the last argument.
\<close>

definition invokeMiddleware ::
  "Middleware \<Rightarrow> jsval list \<Rightarrow> nat \<Rightarrow> event list \<times> settle \<times> nat"
where
  "invokeMiddleware middleware args h =
     (let next = (if args = [] then Undefined else last args) in
      case getMiddlewareInstance middleware h of
        (evs, Inl err, h') \<Rightarrow> (evs @ [CallNext next [err]], Fulfils Undefined, h')
      | (evs, Inr NoInstance, h') \<Rightarrow> (evs @ [CallNext next []], Fulfils Undefined, h')
      | (evs, Inr (TheFunction f), h') \<Rightarrow>
          (case ownUse f of
             Some u \<Rightarrow>
               (evs @ apply_handler Handler_use u (Fn (fid f)) args next, Fulfils Undefined, h')
           | None \<Rightarrow>
               (evs @ apply_handler Handler_self (call f) (Fn (fid f)) args next,
                Fulfils Undefined, h'))
      | (evs, Inr (NewObject a u), h') \<Rightarrow>
          (evs @ apply_handler Handler_use u (Inst a) args next, Fulfils Undefined, h'))"

definition middlewareHandler ::
  "Middleware \<Rightarrow> jsval \<Rightarrow> jsval \<Rightarrow> jsval \<Rightarrow> nat \<Rightarrow> event list \<times> nat"
where
  "middlewareHandler middleware req res next h =
     (case invokeMiddleware middleware [req, res, next] h of
        (evs, p, h') \<Rightarrow> (evs @ catch_next p next, h'))"

section \<open>The other middleware normaliser in the sources (lines 187-212)\<close>

text \<open>
  \<^verbatim>\<open>if (!middleware) { return next() }
  middleware.use.apply(args)\<close>
  \<open>apply\<close> is given one argument, so \<open>use\<close> runs with the argument array as \<open>this\<close> and
  with no arguments; its result is dropped. Reading \<open>apply\<close> of a missing \<open>use\<close> throws a
  TypeError, which the \<open>catch\<close> hands to \<open>next\<close>.
\<close>

definition invokeMiddleware_196 :: "Middleware \<Rightarrow> jsval list \<Rightarrow> event list \<times> settle" where
  "invokeMiddleware_196 middleware args =
     (let next = (if args = [] then Undefined else last args) in
      case middleware of
        Falsy \<Rightarrow> ([CallNext next []], Fulfils Undefined)
      | _ \<Rightarrow>
          (case (case middleware of Object use \<Rightarrow> use | Function f \<Rightarrow> ownUse f | Falsy \<Rightarrow> None) of
             None \<Rightarrow> ([CallNext next [TypeError]], Fulfils Undefined)
           | Some u \<Rightarrow>
               (Apply Handler_use (Arr args) [] #
                  (case u (Arr args) [] of
                     Inl err \<Rightarrow> [CallNext next [err]]
                   | Inr r \<Rightarrow> []),
                Fulfils Undefined)))"

definition middlewareHandler_187 :: "Middleware \<Rightarrow> jsval \<Rightarrow> jsval \<Rightarrow> jsval \<Rightarrow> event list" where
  "middlewareHandler_187 middleware req res next =
     (case invokeMiddleware_196 middleware [req, res, next] of
        (evs, p) \<Rightarrow> evs @ catch_next p next)"

section \<open>Attaching middleware to controller metadata (express.ts, lines 165-173)\<close>

text \<open>
  Modelled from the spec: the interface \<open>ExpressMeta\<close> and \<open>getMeta\<close> are declared in
  \<open>./meta\<close>, which is not among the sources. The record has the fields that
  \<open>attachMiddleware\<close> and \<open>registerController\<close> read: the base path \<open>url\<close>, the
  controller-level \<open>middleware\<close> list and the \<open>routes\<close> table from method name to a
  route group, which holds the list \<open>routes\<close> of route declarations (each with
  \<open>method\<close>, \<open>url\<close> and \<open>middleware\<close>) and the optional \<open>status\<close>. The field names
  carry the record as a prefix. \<open>getMeta\<close> returns the record of the target, which
  \<open>attachMiddleware\<close> updates in place: the model takes the record and returns it updated.
  The \<open>routes\<close> table is an ordinary object, so \<open>property in meta.routes\<close> holds
  for the declared method names and also for the names every object inherits from
  \<open>Object.prototype\<close>, listed in \<open>Object_prototype\<close>.
\<close>

definition Object_prototype :: "string list" where
  "Object_prototype =
     [''constructor'', ''__defineGetter__'', ''__defineSetter__'', ''hasOwnProperty'',
      ''__lookupGetter__'', ''__lookupSetter__'', ''isPrototypeOf'',
      ''propertyIsEnumerable'', ''toString'', ''valueOf'', ''__proto__'',
      ''toLocaleString'']"

record 'm Route =
  route_method :: string
  route_url :: string
  route_middleware :: "'m list"

record 'm MethodMeta =
  group_routes :: "'m Route list"
  group_status :: "int option"

record 'm ExpressMeta =
  meta_url :: string
  meta_middleware :: "'m list"
  meta_routes :: "string \<Rightarrow> 'm MethodMeta option"

text \<open>
  \<open>routes[0].middleware\<close> of a route group with no route declaration reads a property of
  \<open>undefined\<close> and throws a TypeError. For an inherited name that is no declared method
  name, \<open>meta.routes[property]\<close> is the inherited value (a built-in function, or
  \<open>Object.prototype\<close> itself), whose \<open>routes\<close> is \<open>undefined\<close>: reading \<open>[0]\<close> of it
  throws a TypeError.
\<close>

definition attachMiddleware ::
  "'m ExpressMeta \<Rightarrow> string option \<Rightarrow> 'm \<Rightarrow> jsval + 'm ExpressMeta"
where
  "attachMiddleware meta property middleware =
     (if meta_url meta \<noteq> [] then
        Inr (meta\<lparr>meta_middleware := middleware # meta_middleware meta\<rparr>)
      else
        (case property of
           None \<Rightarrow> Inr meta
         | Some p \<Rightarrow>
             if p \<noteq> [] then
               (case meta_routes meta p of
                  None \<Rightarrow> if p \<in> set Object_prototype then Inl TypeError else Inr meta
                | Some g \<Rightarrow>
                    (case group_routes g of
                       [] \<Rightarrow> Inl TypeError
                     | r # rs \<Rightarrow>
                         Inr (meta\<lparr>meta_routes := (meta_routes meta)(p \<mapsto>
                                g\<lparr>group_routes :=
                                    r\<lparr>route_middleware := middleware # route_middleware r\<rparr> # rs\<rparr>)\<rparr>)))
             else Inr meta))"

section \<open>HTTP errors (errors/ConflictError.ts)\<close>

text \<open>
  Modelled from the spec: the base class \<open>HttpError\<close> is declared in \<open>./HttpError\<close>,
  which is not among the sources. By the spec an HTTP error carries its numeric status
  code as a readable attribute and a message, which is empty when none is given.
\<close>

record HttpError =
  error_name :: string
  status :: int
  message :: string

definition HttpError_new :: "int \<Rightarrow> HttpError" where
  "HttpError_new code = \<lparr>error_name = ''Error'', status = code, message = []\<rparr>"

text \<open>
  \<^verbatim>\<open>name = 'ConflictError'
  constructor(message?: string) { super(409); ...; if (message) this.message = message }\<close>
  The field initialiser runs after \<open>super\<close> returns.
\<close>

definition ConflictError :: "string option \<Rightarrow> HttpError" where
  "ConflictError message' =
     (let this = (HttpError_new 409)\<lparr>error_name := ''ConflictError''\<rparr>
      in case message' of
           None \<Rightarrow> this
         | Some m \<Rightarrow> if m \<noteq> [] then this\<lparr>message := m\<rparr> else this)"

section \<open>Properties of parameter extraction\<close>

lemma getProp_defined:
  "v \<noteq> Undefined \<Longrightarrow> v \<noteq> Null \<Longrightarrow> getProp proto v k = Inr (lookup proto v k)"
  by (simp add: getProp_def)

lemma truthy_defined: "truthy v \<Longrightarrow> v \<noteq> Undefined \<and> v \<noteq> Null"
  by (cases v) simp_all

text \<open>
  On a source that is neither \<open>undefined\<close> nor \<open>null\<close>, \<open>getParam\<close> returns: it chooses
  the sub-object when one is asked for and is truthy, the source otherwise, and reads
  the named property of the chosen value when a name is given.
\<close>

lemma getParam_value:
  assumes "source \<noteq> Undefined" and "source \<noteq> Null"
  shows "getParam proto source pt nm =
           Inr (let param = (case pt of
                               None \<Rightarrow> source
                             | Some t \<Rightarrow> if t \<noteq> [] \<and> truthy (lookup proto source t)
                                        then lookup proto source t else source)
                in case nm of
                     None \<Rightarrow> param
                   | Some n \<Rightarrow> if n \<noteq> [] then lookup proto param n else param)"
proof -
  let ?param = "case pt of
                  None \<Rightarrow> source
                | Some t \<Rightarrow> if t \<noteq> [] \<and> truthy (lookup proto source t)
                           then lookup proto source t else source"
  have chosen: "(case pt of None \<Rightarrow> Inr source
            | Some t \<Rightarrow> if t \<noteq> [] then
                  (case getProp proto source t of Inl e \<Rightarrow> Inl e
                   | Inr sub \<Rightarrow> Inr (if truthy sub then sub else source))
                else Inr source) = Inr ?param"
    using assms by (cases pt) (simp_all add: getProp_defined)
  have defined: "?param \<noteq> Undefined \<and> ?param \<noteq> Null"
    using assms truthy_defined by (cases pt) auto
  show ?thesis
    unfolding getParam_def chosen using defined
    by (cases nm) (simp_all add: getProp_defined Let_def)
qed

lemma switch_type_total:
  "req \<noteq> Undefined \<Longrightarrow> req \<noteq> Null \<Longrightarrow> \<exists>w. switch_type proto req res next p = Inr w"
  by (cases "ptype p") (simp_all add: getParam_value)

lemma extract_loop_total:
  "req \<noteq> Undefined \<Longrightarrow> req \<noteq> Null \<Longrightarrow>
   \<exists>out. extract_loop proto req res next ps args = Inr out"
proof (induction ps arbitrary: args)
  case Nil
  then show ?case by simp
next
  case (Cons p ps)
  obtain w where "switch_type proto req res next p = Inr w"
    using switch_type_total[OF Cons.prems] by blast
  then show ?case using Cons.IH[OF Cons.prems] by simp
qed

lemma length_array_set: "length (array_set xs i v) = max (length xs) (Suc i)"
  by (auto simp: array_set_def)

lemma nth_array_set_eq: "array_set xs i v ! i = v"
  by (simp add: array_set_def nth_append)

lemma nth_array_set_neq:
  "j \<noteq> i \<Longrightarrow> j < length (array_set xs i v) \<Longrightarrow>
   array_set xs i v ! j = (if j < length xs then xs ! j else Undefined)"
  by (auto simp: array_set_def nth_append)

text \<open>The loop never shrinks the array, and every declared index ends up inside it.\<close>

lemma extract_loop_length:
  "extract_loop proto req res next ps args = Inr out \<Longrightarrow>
   length args \<le> length out \<and> (\<forall>p \<in> set ps. index p < length out)"
proof (induction ps arbitrary: args)
  case Nil
  then show ?case by simp
next
  case (Cons p ps)
  from Cons.prems obtain v where v: "switch_type proto req res next p = Inr v"
    and rest: "extract_loop proto req res next ps (array_set args (index p) v) = Inr out"
    by (auto split: sum.splits)
  from Cons.IH[OF rest] show ?case by (auto simp: length_array_set)
qed

text \<open>A slot no declaration names keeps what it had, or is a hole.\<close>

lemma extract_loop_frame:
  "extract_loop proto req res next ps args = Inr out \<Longrightarrow> j < length out \<Longrightarrow>
   j \<notin> index ` set ps \<Longrightarrow> out ! j = (if j < length args then args ! j else Undefined)"
proof (induction ps arbitrary: args)
  case Nil
  then show ?case by simp
next
  case (Cons p ps)
  from Cons.prems(1) obtain v where v: "switch_type proto req res next p = Inr v"
    and rest: "extract_loop proto req res next ps (array_set args (index p) v) = Inr out"
    by (auto split: sum.splits)
  have ne: "j \<noteq> index p" and nin: "j \<notin> index ` set ps" using Cons.prems(3) by auto
  have "out ! j = (if j < length (array_set args (index p) v)
                   then array_set args (index p) v ! j else Undefined)"
    using Cons.IH[OF rest Cons.prems(2) nin] .
  then show ?case using ne by (auto simp: nth_array_set_neq length_array_set)
qed

text \<open>The last declaration of an index decides the slot.\<close>

lemma extract_loop_last_wins:
  "extract_loop proto req res next (qs @ p # rs) args = Inr out \<Longrightarrow>
   index p \<notin> index ` set rs \<Longrightarrow> switch_type proto req res next p = Inr (out ! index p)"
proof (induction qs arbitrary: args)
  case Nil
  from Nil.prems(1) obtain v where v: "switch_type proto req res next p = Inr v"
    and rest: "extract_loop proto req res next rs (array_set args (index p) v) = Inr out"
    by (auto split: sum.splits)
  have len: "index p < length out"
    using extract_loop_length[OF rest] by (simp add: length_array_set)
  have "out ! index p = array_set args (index p) v ! index p"
    using extract_loop_frame[OF rest len Nil.prems(2)]
    by (simp add: length_array_set max_def)
  then show ?case using v by (simp add: nth_array_set_eq)
next
  case (Cons q qs)
  from Cons.prems(1) obtain v where
    rest: "extract_loop proto req res next (qs @ p # rs) (array_set args (index q) v) = Inr out"
    by (auto split: sum.splits)
  show ?case using Cons.IH[OF rest Cons.prems(2)] .
qed

text \<open>
  With pairwise distinct indices, the slot of every declaration of the list holds the
  value its \<open>switch\<close> case computed.
\<close>

lemma extract_loop_distinct:
  assumes "extract_loop proto req res next ps [] = Inr out"
      and "distinct (map index ps)" and "p \<in> set ps"
  shows "index p < length out \<and> switch_type proto req res next p = Inr (out ! index p)"
proof -
  from assms(3) obtain qs rs where split: "ps = qs @ p # rs" by (meson split_list)
  with assms(2) have "index p \<notin> index ` set rs" by auto
  with extract_loop_last_wins[of proto req res "next" qs p rs "[]" out] assms(1) split
  have "switch_type proto req res next p = Inr (out ! index p)" by simp
  moreover have "index p < length out"
    using extract_loop_length[OF assms(1)] assms(3) by simp
  ultimately show ?thesis by simp
qed



text \<open>
  Claim C7. In every declared parameter list (with pairwise distinct indices) and for
  every parameter of it with a named source (PARAMS, QUERY, BODY, HEADERS, COOKIES)
  whose sub-object is missing from the request object (or is otherwise not truthy),
  \<open>extractParameters\<close> returns normally, and the slot of that parameter holds what the
  request object itself gives: its property of the declared name (\<open>undefined\<close> when it
  has none), or the whole request when no name is declared.
\<close>

theorem getParam_missing_subobject:
  assumes "req \<noteq> Undefined" and "req \<noteq> Null"
      and "distinct (map index ps)" and "p \<in> set ps"
      and "(ptype p, t) \<in> {(PARAMS, ''params''), (QUERY, ''query''), (BODY, ''body''),
                           (HEADERS, ''headers''), (COOKIES, ''cookies'')}"
      and "\<not> truthy (lookup proto req t)"
  shows "\<exists>args. extractParameters proto req res next (Some ps) = Inr args \<and>
           index p < length args \<and>
           args ! index p =
             (case name p of
                None \<Rightarrow> req
              | Some n \<Rightarrow> if n = [] then req else lookup proto req n)"
proof -
  obtain args where run: "extract_loop proto req res next ps [] = Inr args"
    using extract_loop_total[OF assms(1,2)] by blast
  from extract_loop_distinct[OF run assms(3,4)]
  have inside: "index p < length args"
    and slot: "switch_type proto req res next p = Inr (args ! index p)" by simp_all
  have "switch_type proto req res next p =
          Inr (case name p of
                 None \<Rightarrow> req
               | Some n \<Rightarrow> if n = [] then req else lookup proto req n)"
    using assms(5,6)
    by (auto simp: getParam_value[OF assms(1,2)] Let_def split: option.splits)
  with slot have "args ! index p =
             (case name p of
                None \<Rightarrow> req
              | Some n \<Rightarrow> if n = [] then req else lookup proto req n)" by simp
  with run inside show ?thesis
    unfolding extractParameters_def by simp
qed

text \<open>
  The theorem at a request without parsed cookies, in a list of two declarations: the
  cookie parameter \<open>sid\<close> at index 1 reads the property \<open>sid\<close> of the request.
\<close>

theorem getParam_missing_subobject_witness:
  "\<exists>args. extractParameters (\<lambda>v k. Undefined)
      (Obj [(''method'', Str ''GET''), (''sid'', Str ''abc'')]) (Inst 0) (Fn 1)
      (Some [\<lparr>name = None, index = 0, ptype = RESPONSE\<rparr>,
             \<lparr>name = Some ''sid'', index = 1, ptype = COOKIES\<rparr>]) = Inr args \<and>
     1 < length args \<and> args ! 1 = Str ''abc''"
proof -
  let ?proto = "\<lambda>(v::jsval) (k::string). Undefined"
  let ?req = "Obj [(''method'', Str ''GET''), (''sid'', Str ''abc'')]"
  let ?first = "\<lparr>name = None, index = 0, ptype = RESPONSE\<rparr>"
  let ?p = "\<lparr>name = Some ''sid'', index = 1, ptype = COOKIES\<rparr>"
  have r1: "?req \<noteq> Undefined" and r2: "?req \<noteq> Null" by simp_all
  have d: "distinct (map index [?first, ?p])" by simp
  have m: "?p \<in> set [?first, ?p]" by simp
  have kind: "(ptype ?p, ''cookies'') \<in> {(PARAMS, ''params''), (QUERY, ''query''),
      (BODY, ''body''), (HEADERS, ''headers''), (COOKIES, ''cookies'')}" by simp
  have missing: "\<not> truthy (lookup ?proto ?req ''cookies'')" by (simp add: lookup_def)
  from getParam_missing_subobject[OF r1 r2 d m kind missing, of "Inst 0" "Fn 1"]
  show ?thesis by (simp add: lookup_def)
qed

section \<open>Properties of the HTTP errors\<close>

text \<open>
  Claim C9. A \<open>ConflictError\<close> constructed with no message carries the status code 409
  and the empty message; constructed with the message \<open>X\<close> it carries 409 and \<open>X\<close>.
  The status code is the field \<open>status\<close> of the error.
\<close>

theorem ConflictError_status_message:
  "status (ConflictError None) = 409 \<and> message (ConflictError None) = [] \<and>
   status (ConflictError (Some X)) = 409 \<and> message (ConflictError (Some X)) = X"
  by (simp add: ConflictError_def HttpError_new_def Let_def)

section \<open>Properties of the generated route handler\<close>

text \<open>
  Claim C2. When the controller method returns a promise that rejects with \<open>E\<close>, the
  route handler calls \<open>next\<close> exactly once, with \<open>E\<close>, and never calls \<open>send\<close>: its
  whole trace is the call of the method followed by \<open>next(E)\<close>.
\<close>

theorem routeHandler_rejected_forwards:
  assumes "extractParameters proto req (ref res) next params = Inr args"
      and "controller methodName = Some method'"
      and "method' args = Inr (Promise (Rejects E))"
  shows "routeHandler proto controller methodName params status' req res next =
           ([CallMethod methodName args, CallNext next [E]], Inr (Promise (Rejects E))) \<and>
         filter isNext (fst (routeHandler proto controller methodName params status' req res next)) =
           [CallNext next [E]] \<and>
         filter isSend (fst (routeHandler proto controller methodName params status' req res next)) = []"
  using assms by (simp add: routeHandler_def catch_next_def)

text \<open>The theorem at a controller whose \<open>create\<close> method rejects with the error \<open>boom\<close>.\<close>

theorem routeHandler_rejected_forwards_witness:
  "routeHandler (\<lambda>v k. Undefined) (\<lambda>m. if m = ''create'' then Some (\<lambda>args. Inr (Promise (Rejects (Exn ''boom'')))) else None)
     ''create'' None (Some 201) (Obj []) \<lparr>ref = Inst 0, headersSent = False\<rparr> (Fn 1) =
     ([CallMethod ''create'' [], CallNext (Fn 1) [Exn ''boom'']], Inr (Promise (Rejects (Exn ''boom''))))"
  using routeHandler_rejected_forwards[of "\<lambda>v k. Undefined" "Obj []" "\<lparr>ref = Inst 0, headersSent = False\<rparr>" "Fn 1" None "[]"
      "\<lambda>m. if m = ''create'' then Some (\<lambda>args. Inr (Promise (Rejects (Exn ''boom'')))) else None"
      "''create''" "\<lambda>args. Inr (Promise (Rejects (Exn ''boom'')))" "Exn ''boom''" "Some 201"]
  by (simp add: extractParameters_def)

text \<open>
  Claim C1. When the controller method returns a promise that resolves to \<open>V\<close>: if
  \<open>V\<close> is defined and \<open>headersSent\<close> is false at resolution time, the handler calls
  \<open>send\<close> exactly once, with \<open>V\<close>, after setting the declared status code when one
  was declared (a declared status is an HTTP status code, so a number other than 0) and
  without a call of \<open>status\<close> when none was (the handler tests the truthiness of
  \<open>status\<close>, so the number 0, which is no status code, counts as none); if \<open>V\<close> is
  \<open>undefined\<close> or the headers are already sent, the handler calls neither \<open>status\<close>
  nor \<open>send\<close>. \<open>next\<close> is not called, and the handler returns the promise.
\<close>

theorem routeHandler_resolved_sends:
  assumes "extractParameters proto req (ref res) next params = Inr args"
      and "controller methodName = Some method'"
      and "method' args = Inr (Promise (Fulfils V))"
  shows "(\<not> headersSent res \<and> V \<noteq> Undefined \<longrightarrow>
            filter isSend (fst (routeHandler proto controller methodName params status' req res next)) =
              [Send V] \<and>
            (\<forall>s. status' = Some s \<and> s \<noteq> 0 \<longrightarrow>
               fst (routeHandler proto controller methodName params status' req res next) =
                 [CallMethod methodName args, SetStatus s, Send V]) \<and>
            (status' = None \<or> status' = Some 0 \<longrightarrow>
               fst (routeHandler proto controller methodName params status' req res next) =
                 [CallMethod methodName args, Send V])) \<and>
         (headersSent res \<or> V = Undefined \<longrightarrow>
            fst (routeHandler proto controller methodName params status' req res next) =
              [CallMethod methodName args]) \<and>
         filter isNext (fst (routeHandler proto controller methodName params status' req res next)) = [] \<and>
         snd (routeHandler proto controller methodName params status' req res next) =
           Inr (Promise (Fulfils V))"
  using assms by (auto simp: routeHandler_def split: option.splits)

text \<open>
  The theorem at a controller whose \<open>create\<close> method resolves to \<open>made\<close>, with the
  declared status 201: with the headers not sent the handler sets 201 and sends; with
  the headers sent it does neither.
\<close>

theorem routeHandler_resolved_sends_witness:
  "filter isSend (fst (routeHandler (\<lambda>v k. Undefined)
      (\<lambda>m. if m = ''create'' then Some (\<lambda>args. Inr (Promise (Fulfils (Str ''made'')))) else None)
      ''create'' None (Some 201) (Obj []) \<lparr>ref = Inst 0, headersSent = False\<rparr> (Fn 1))) =
     [Send (Str ''made'')] \<and>
   fst (routeHandler (\<lambda>v k. Undefined)
      (\<lambda>m. if m = ''create'' then Some (\<lambda>args. Inr (Promise (Fulfils (Str ''made'')))) else None)
      ''create'' None (Some 201) (Obj []) \<lparr>ref = Inst 0, headersSent = False\<rparr> (Fn 1)) =
     [CallMethod ''create'' [], SetStatus 201, Send (Str ''made'')] \<and>
   fst (routeHandler (\<lambda>v k. Undefined)
      (\<lambda>m. if m = ''create'' then Some (\<lambda>args. Inr (Promise (Fulfils (Str ''made'')))) else None)
      ''create'' None (Some 201) (Obj []) \<lparr>ref = Inst 0, headersSent = True\<rparr> (Fn 1)) =
     [CallMethod ''create'' []]"
proof -
  let ?proto = "\<lambda>(v::jsval) (k::string). Undefined"
  let ?c = "\<lambda>m. if m = ''create'' then Some (\<lambda>args::jsval list. Inr (Promise (Fulfils (Str ''made'')))) else None"
  let ?m = "\<lambda>args::jsval list. Inr (Promise (Fulfils (Str ''made''))) :: jsval + result"
  note unsent = routeHandler_resolved_sends[of ?proto "Obj []" "\<lparr>ref = Inst 0, headersSent = False\<rparr>"
      "Fn 1" None "[]" ?c "''create''" ?m "Str ''made''" "Some 201"]
  note sent = routeHandler_resolved_sends[of ?proto "Obj []" "\<lparr>ref = Inst 0, headersSent = True\<rparr>"
      "Fn 1" None "[]" ?c "''create''" ?m "Str ''made''" "Some 201"]
  have a: "filter isSend (fst (routeHandler ?proto ?c ''create'' None (Some 201) (Obj [])
      \<lparr>ref = Inst 0, headersSent = False\<rparr> (Fn 1))) = [Send (Str ''made'')]"
    using unsent by (simp add: extractParameters_def)
  have b: "fst (routeHandler ?proto ?c ''create'' None (Some 201) (Obj [])
      \<lparr>ref = Inst 0, headersSent = False\<rparr> (Fn 1)) =
      [CallMethod ''create'' [], SetStatus 201, Send (Str ''made'')]"
    using unsent by (simp add: extractParameters_def)
  have c: "fst (routeHandler ?proto ?c ''create'' None (Some 201) (Obj [])
      \<lparr>ref = Inst 0, headersSent = True\<rparr> (Fn 1)) = [CallMethod ''create'' []]"
    using sent by (simp add: extractParameters_def)
  from a b c show ?thesis by blast
qed

section \<open>Properties of the middleware normaliser\<close>

lemma constructed_append: "constructed (xs @ ys) = constructed xs @ constructed ys"
  by (induction xs rule: constructed.induct) simp_all

lemma receivers_append: "receivers (xs @ ys) = receivers xs @ receivers ys"
  by (induction xs rule: receivers.induct) simp_all

lemma catch_next_plain: "constructed (catch_next p n) = [] \<and> receivers (catch_next p n) = []"
  by (cases p) (simp_all add: catch_next_def)

lemma apply_handler_plain:
  "constructed (apply_handler c handler this args n) = [] \<and>
   receivers (apply_handler c handler this args n) = [this]"
  by (auto simp: apply_handler_def catch_next_plain split: sum.splits result.splits)

lemma apply_handler_forwards:
  "handler this args = Inl E \<or> handler this args = Inr (Promise (Rejects E)) \<Longrightarrow>
   CallNext n [E] \<in> set (apply_handler c handler this args n)"
  by (auto simp: apply_handler_def catch_next_def)

text \<open>The handler of lines 231-235, by the kind of middleware reference.\<close>

lemma middlewareHandler_class:
  assumes "protoUse f = Some u"
  shows "middlewareHandler (Function f) req res n h =
           (New (fid f) h #
              (case constructorThrows f of
                 Some e \<Rightarrow> [CallNext n [e]]
               | None \<Rightarrow> apply_handler Handler_use u (Inst h) [req, res, n] n),
            Suc h)"
  using assms
  by (simp add: middlewareHandler_def invokeMiddleware_def getMiddlewareInstance_def
      catch_next_def split: option.splits)

lemma middlewareHandler_function:
  assumes "protoUse f = None"
  shows "middlewareHandler (Function f) req res n h =
           ((case ownUse f of
               Some u \<Rightarrow> apply_handler Handler_use u (Fn (fid f)) [req, res, n] n
             | None \<Rightarrow> apply_handler Handler_self (call f) (Fn (fid f)) [req, res, n] n),
            h)"
  using assms
  by (simp add: middlewareHandler_def invokeMiddleware_def getMiddlewareInstance_def
      catch_next_def split: option.splits)

lemma middlewareHandler_other:
  "middlewareHandler Falsy req res n h = ([CallNext n []], h)"
  "middlewareHandler (Object use) req res n h = ([CallNext n []], h)"
  by (simp_all add: middlewareHandler_def invokeMiddleware_def getMiddlewareInstance_def
      catch_next_def)

text \<open>
  Claim C5. For a middleware reference that is a function whose prototype has \<open>use\<close>,
  every invocation of the handler made by \<open>middlewareHandler\<close> (lines 231-269)
  constructs exactly one object, at a fresh address, and applies \<open>use\<close> to no other
  receiver than that object; when the constructor returns, the construction is the
  first event and the call of \<open>use\<close> on the new object, with the request, the response
  and \<open>next\<close>, the second. Two invocations, the second starting in the state the first
  one leaves or in any later state, construct objects at different addresses.
\<close>

theorem middlewareHandler_fresh_instance:
  assumes "protoUse f = Some u"
      and "middlewareHandler (Function f) req1 res1 next1 h = (tr1, h1)"
      and "h1 \<le> h'"
      and "middlewareHandler (Function f) req2 res2 next2 h' = (tr2, h2)"
  shows "constructed tr1 = [h] \<and> constructed tr2 = [h'] \<and> h \<noteq> h' \<and>
         set (receivers tr1) \<subseteq> {Inst h} \<and> set (receivers tr2) \<subseteq> {Inst h'} \<and>
         (constructorThrows f = None \<longrightarrow>
            (\<exists>rest1 rest2.
               tr1 = New (fid f) h # Apply Handler_use (Inst h) [req1, res1, next1] # rest1 \<and>
               tr2 = New (fid f) h' # Apply Handler_use (Inst h') [req2, res2, next2] # rest2))"
proof -
  have t1: "tr1 = New (fid f) h # (case constructorThrows f of
                 Some e \<Rightarrow> [CallNext next1 [e]]
               | None \<Rightarrow> apply_handler Handler_use u (Inst h) [req1, res1, next1] next1)"
    and h1: "h1 = Suc h"
    using assms(2) by (simp_all add: middlewareHandler_class[OF assms(1)])
  have t2: "tr2 = New (fid f) h' # (case constructorThrows f of
                 Some e \<Rightarrow> [CallNext next2 [e]]
               | None \<Rightarrow> apply_handler Handler_use u (Inst h') [req2, res2, next2] next2)"
    using assms(4) by (simp_all add: middlewareHandler_class[OF assms(1)])
  have ne: "h \<noteq> h'" using h1 assms(3) by simp
  have c1: "constructed tr1 = [h]" and c2: "constructed tr2 = [h']"
    unfolding t1 t2 by (simp_all add: apply_handler_plain split: option.splits)
  have r1: "set (receivers tr1) \<subseteq> {Inst h}" and r2: "set (receivers tr2) \<subseteq> {Inst h'}"
    unfolding t1 t2 by (simp_all add: apply_handler_plain split: option.splits)
  have ord: "constructorThrows f = None \<longrightarrow>
            (\<exists>rest1 rest2.
               tr1 = New (fid f) h # Apply Handler_use (Inst h) [req1, res1, next1] # rest1 \<and>
               tr2 = New (fid f) h' # Apply Handler_use (Inst h') [req2, res2, next2] # rest2)"
    unfolding t1 t2 by (simp add: apply_handler_def)
  from c1 c2 ne r1 r2 ord show ?thesis by blast
qed

text \<open>
  The theorem at a class whose \<open>use\<close> returns normally, invoked twice in a row from the
  state with five objects allocated: the objects are made at the addresses 5 and 6.
\<close>

theorem middlewareHandler_fresh_instance_witness:
  "\<exists>tr1 h1 tr2 h2.
     middlewareHandler
       (Function \<lparr>fid = 3, call = (\<lambda>this args. Inl TypeError), ownUse = None,
          protoUse = Some (\<lambda>this args. Inr (Value Undefined)), constructorThrows = None\<rparr>)
       (Obj []) (Inst 0) (Fn 1) 5 = (tr1, h1) \<and>
     middlewareHandler
       (Function \<lparr>fid = 3, call = (\<lambda>this args. Inl TypeError), ownUse = None,
          protoUse = Some (\<lambda>this args. Inr (Value Undefined)), constructorThrows = None\<rparr>)
       (Obj []) (Inst 0) (Fn 1) h1 = (tr2, h2) \<and>
     constructed tr1 = [5] \<and> constructed tr2 = [6] \<and>
     tr1 = [New 3 5, Apply Handler_use (Inst 5) [Obj [], Inst 0, Fn 1]] \<and>
     tr2 = [New 3 6, Apply Handler_use (Inst 6) [Obj [], Inst 0, Fn 1]]"
proof -
  let ?u = "\<lambda>(this::jsval) (args::jsval list). Inr (Value Undefined) :: jsval + result"
  let ?f = "\<lparr>fid = 3, call = (\<lambda>this args. Inl TypeError), ownUse = None,
          protoUse = Some ?u, constructorThrows = None\<rparr>"
  let ?t1 = "[New 3 5, Apply Handler_use (Inst 5) [Obj [], Inst 0, Fn 1]]"
  let ?t2 = "[New 3 6, Apply Handler_use (Inst 6) [Obj [], Inst 0, Fn 1]]"
  have p: "protoUse ?f = Some ?u" by simp
  have e1: "middlewareHandler (Function ?f) (Obj []) (Inst 0) (Fn 1) 5 = (?t1, 6)"
    by (simp add: middlewareHandler_def invokeMiddleware_def getMiddlewareInstance_def
        apply_handler_def catch_next_def)
  have e2: "middlewareHandler (Function ?f) (Obj []) (Inst 0) (Fn 1) 6 = (?t2, 7)"
    by (simp add: middlewareHandler_def invokeMiddleware_def getMiddlewareInstance_def
        apply_handler_def catch_next_def)
  have le: "(6::nat) \<le> 6" by simp
  from middlewareHandler_fresh_instance[OF p e1 le e2]
  have "constructed ?t1 = [5] \<and> constructed ?t2 = [6]" by blast
  with e1 e2 show ?thesis by blast
qed

text \<open>
  Claim C4, as amended. The adapter forwards to \<open>next\<close>: the rejection of the promise a
  controller method returns (the route handler then returns normally); and, in the
  middleware handler of lines 231-269, the error a class constructor throws and the
  error the invoked handler (\<open>use\<close> of the new object, the own \<open>use\<close> of a function, or
  the function itself) throws synchronously or rejects its promise with. An error a
  controller method throws synchronously is not caught by the route handler, which
  has no \<open>try\<close>: the handler throws it on to its caller, the framework, without
  calling \<open>next\<close>.
\<close>

theorem errors_forwarded_to_next:
  "(extractParameters proto req (ref res) next params = Inr args \<and>
    controller methodName = Some method' \<and> method' args = Inr (Promise (Rejects E)) \<longrightarrow>
      CallNext next [E] \<in> set (fst (routeHandler proto controller methodName params status' req res next)) \<and>
      snd (routeHandler proto controller methodName params status' req res next) = Inr (Promise (Rejects E))) \<and>
   (extractParameters proto req (ref res) next params = Inr args \<and>
    controller methodName = Some method' \<and> method' args = Inl E \<longrightarrow>
      routeHandler proto controller methodName params status' req res next =
        ([CallMethod methodName args], Inl E)) \<and>
   (protoUse f = Some u \<and> constructorThrows f = Some E \<longrightarrow>
      CallNext next [E] \<in> set (fst (middlewareHandler (Function f) req mres next h))) \<and>
   (protoUse f = Some u \<and> constructorThrows f = None \<and>
    (u (Inst h) [req, mres, next] = Inl E \<or>
     u (Inst h) [req, mres, next] = Inr (Promise (Rejects E))) \<longrightarrow>
      CallNext next [E] \<in> set (fst (middlewareHandler (Function f) req mres next h))) \<and>
   (protoUse f = None \<and> ownUse f = Some u \<and>
    (u (Fn (fid f)) [req, mres, next] = Inl E \<or>
     u (Fn (fid f)) [req, mres, next] = Inr (Promise (Rejects E))) \<longrightarrow>
      CallNext next [E] \<in> set (fst (middlewareHandler (Function f) req mres next h))) \<and>
   (protoUse f = None \<and> ownUse f = None \<and>
    (call f (Fn (fid f)) [req, mres, next] = Inl E \<or>
     call f (Fn (fid f)) [req, mres, next] = Inr (Promise (Rejects E))) \<longrightarrow>
      CallNext next [E] \<in> set (fst (middlewareHandler (Function f) req mres next h)))"
proof -
  have route: "extractParameters proto req (ref res) next params = Inr args \<and>
    controller methodName = Some method' \<and> method' args = Inr (Promise (Rejects E)) \<longrightarrow>
      CallNext next [E] \<in> set (fst (routeHandler proto controller methodName params status' req res next)) \<and>
      snd (routeHandler proto controller methodName params status' req res next) = Inr (Promise (Rejects E))"
    by (simp add: routeHandler_def catch_next_def)
  have thrown: "extractParameters proto req (ref res) next params = Inr args \<and>
    controller methodName = Some method' \<and> method' args = Inl E \<longrightarrow>
      routeHandler proto controller methodName params status' req res next =
        ([CallMethod methodName args], Inl E)"
    by (simp add: routeHandler_def)
  have ctor: "protoUse f = Some u \<and> constructorThrows f = Some E \<longrightarrow>
      CallNext next [E] \<in> set (fst (middlewareHandler (Function f) req mres next h))"
    by (simp add: middlewareHandler_class)
  have use: "protoUse f = Some u \<and> constructorThrows f = None \<and>
    (u (Inst h) [req, mres, next] = Inl E \<or>
     u (Inst h) [req, mres, next] = Inr (Promise (Rejects E))) \<longrightarrow>
      CallNext next [E] \<in> set (fst (middlewareHandler (Function f) req mres next h))"
    using apply_handler_forwards[of u "Inst h" "[req, mres, next]" E "next" Handler_use]
    by (auto simp: middlewareHandler_class)
  have own: "protoUse f = None \<and> ownUse f = Some u \<and>
    (u (Fn (fid f)) [req, mres, next] = Inl E \<or>
     u (Fn (fid f)) [req, mres, next] = Inr (Promise (Rejects E))) \<longrightarrow>
      CallNext next [E] \<in> set (fst (middlewareHandler (Function f) req mres next h))"
    using apply_handler_forwards[of u "Fn (fid f)" "[req, mres, next]" E "next" Handler_use]
    by (auto simp: middlewareHandler_function)
  have self: "protoUse f = None \<and> ownUse f = None \<and>
    (call f (Fn (fid f)) [req, mres, next] = Inl E \<or>
     call f (Fn (fid f)) [req, mres, next] = Inr (Promise (Rejects E))) \<longrightarrow>
      CallNext next [E] \<in> set (fst (middlewareHandler (Function f) req mres next h))"
    using apply_handler_forwards[of "call f" "Fn (fid f)" "[req, mres, next]" E "next" Handler_self]
    by (auto simp: middlewareHandler_function)
  from route thrown ctor use own self show ?thesis by blast
qed

text \<open>
  The theorem at the error \<open>boom\<close>: a controller method that rejects, one that throws,
  a class whose constructor throws, a class whose \<open>use\<close> throws, a function whose own
  \<open>use\<close> rejects and a plain function that rejects.
\<close>

theorem errors_forwarded_to_next_witness:
  "CallNext (Fn 1) [Exn ''boom''] \<in> set (fst (routeHandler (\<lambda>v k. Undefined)
      (\<lambda>m. if m = ''get'' then Some (\<lambda>args. Inr (Promise (Rejects (Exn ''boom'')))) else None)
      ''get'' None None (Obj []) \<lparr>ref = Inst 0, headersSent = False\<rparr> (Fn 1))) \<and>
   routeHandler (\<lambda>v k. Undefined)
      (\<lambda>m. if m = ''get'' then Some (\<lambda>args. Inl (Exn ''boom'')) else None)
      ''get'' None None (Obj []) \<lparr>ref = Inst 0, headersSent = False\<rparr> (Fn 1) =
      ([CallMethod ''get'' []], Inl (Exn ''boom'')) \<and>
   CallNext (Fn 1) [Exn ''boom''] \<in> set (fst (middlewareHandler
      (Function \<lparr>fid = 3, call = (\<lambda>this args. Inl TypeError), ownUse = None,
         protoUse = Some (\<lambda>this args. Inr (Value Undefined)),
         constructorThrows = Some (Exn ''boom'')\<rparr>) (Obj []) (Inst 0) (Fn 1) 0)) \<and>
   CallNext (Fn 1) [Exn ''boom''] \<in> set (fst (middlewareHandler
      (Function \<lparr>fid = 3, call = (\<lambda>this args. Inl TypeError), ownUse = None,
         protoUse = Some (\<lambda>this args. Inl (Exn ''boom'')),
         constructorThrows = None\<rparr>) (Obj []) (Inst 0) (Fn 1) 0)) \<and>
   CallNext (Fn 1) [Exn ''boom''] \<in> set (fst (middlewareHandler
      (Function \<lparr>fid = 3, call = (\<lambda>this args. Inl TypeError),
         ownUse = Some (\<lambda>this args. Inr (Promise (Rejects (Exn ''boom'')))),
         protoUse = None, constructorThrows = None\<rparr>) (Obj []) (Inst 0) (Fn 1) 0)) \<and>
   CallNext (Fn 1) [Exn ''boom''] \<in> set (fst (middlewareHandler
      (Function \<lparr>fid = 3, call = (\<lambda>this args. Inr (Promise (Rejects (Exn ''boom'')))),
         ownUse = None, protoUse = None, constructorThrows = None\<rparr>) (Obj []) (Inst 0) (Fn 1) 0))"
proof -
  let ?proto = "\<lambda>(v::jsval) (k::string). Undefined"
  let ?E = "Exn ''boom''"
  let ?rej = "\<lambda>(this::jsval) (args::jsval list). Inr (Promise (Rejects ?E)) :: jsval + result"
  let ?thr = "\<lambda>(this::jsval) (args::jsval list). Inl ?E :: jsval + result"
  let ?ok = "\<lambda>(this::jsval) (args::jsval list). Inr (Value Undefined) :: jsval + result"
  let ?bad = "\<lambda>(this::jsval) (args::jsval list). Inl TypeError :: jsval + result"
  let ?mrej = "\<lambda>args::jsval list. Inr (Promise (Rejects ?E)) :: jsval + result"
  let ?mthr = "\<lambda>args::jsval list. Inl ?E :: jsval + result"
  let ?c = "\<lambda>m. if m = ''get'' then Some ?mrej else None"
  let ?d = "\<lambda>m. if m = ''get'' then Some ?mthr else None"
  let ?res = "\<lparr>ref = Inst 0, headersSent = False\<rparr>"
  let ?f0 = "\<lparr>fid = 3, call = ?bad, ownUse = None, protoUse = Some ?ok, constructorThrows = Some ?E\<rparr>"
  let ?f1 = "\<lparr>fid = 3, call = ?bad, ownUse = None, protoUse = Some ?thr, constructorThrows = None\<rparr>"
  let ?f2 = "\<lparr>fid = 3, call = ?bad, ownUse = Some ?rej, protoUse = None, constructorThrows = None\<rparr>"
  let ?f3 = "\<lparr>fid = 3, call = ?rej, ownUse = None, protoUse = None, constructorThrows = None\<rparr>"
  have a: "CallNext (Fn 1) [?E] \<in> set (fst (routeHandler ?proto ?c ''get'' None None (Obj []) ?res (Fn 1)))"
    using errors_forwarded_to_next[of ?proto "Obj []" ?res "Fn 1" None "[]" ?c "''get''" ?mrej ?E
        None ?f0 ?ok "Inst 0" 0, THEN conjunct1]
    by (simp add: extractParameters_def)
  have a': "routeHandler ?proto ?d ''get'' None None (Obj []) ?res (Fn 1) = ([CallMethod ''get'' []], Inl ?E)"
    using errors_forwarded_to_next[of ?proto "Obj []" ?res "Fn 1" None "[]" ?d "''get''" ?mthr ?E
        None ?f0 ?ok "Inst 0" 0, THEN conjunct2, THEN conjunct1]
    by (simp add: extractParameters_def)
  have b: "CallNext (Fn 1) [?E] \<in> set (fst (middlewareHandler (Function ?f0) (Obj []) (Inst 0) (Fn 1) 0))"
    using errors_forwarded_to_next[of ?proto "Obj []" ?res "Fn 1" None "[]" ?c "''get''" ?mrej ?E
        None ?f0 ?ok "Inst 0" 0, THEN conjunct2, THEN conjunct2, THEN conjunct1]
    by simp
  have c: "CallNext (Fn 1) [?E] \<in> set (fst (middlewareHandler (Function ?f1) (Obj []) (Inst 0) (Fn 1) 0))"
    using errors_forwarded_to_next[of ?proto "Obj []" ?res "Fn 1" None "[]" ?c "''get''" ?mrej ?E
        None ?f1 ?thr "Inst 0" 0, THEN conjunct2, THEN conjunct2, THEN conjunct2, THEN conjunct1]
    by simp
  have d: "CallNext (Fn 1) [?E] \<in> set (fst (middlewareHandler (Function ?f2) (Obj []) (Inst 0) (Fn 1) 0))"
    using errors_forwarded_to_next[of ?proto "Obj []" ?res "Fn 1" None "[]" ?c "''get''" ?mrej ?E
        None ?f2 ?rej "Inst 0" 0,
        THEN conjunct2, THEN conjunct2, THEN conjunct2, THEN conjunct2, THEN conjunct1]
    by simp
  have e: "CallNext (Fn 1) [?E] \<in> set (fst (middlewareHandler (Function ?f3) (Obj []) (Inst 0) (Fn 1) 0))"
    using errors_forwarded_to_next[of ?proto "Obj []" ?res "Fn 1" None "[]" ?c "''get''" ?mrej ?E
        None ?f3 ?rej "Inst 0" 0,
        THEN conjunct2, THEN conjunct2, THEN conjunct2, THEN conjunct2, THEN conjunct2]
    by simp
  from a a' b c d e show ?thesis by blast
qed

text \<open>
  Claim C4 as stated fails for a controller method that throws synchronously: the route
  handler calls the method and lets the error out; \<open>next\<close> is not called.
\<close>

theorem routeHandler_sync_throw_counterexample:
  "routeHandler (\<lambda>v k. Undefined)
     (\<lambda>m. if m = ''get'' then Some (\<lambda>args. Inl (Exn ''boom'')) else None)
     ''get'' None None (Obj []) \<lparr>ref = Inst 0, headersSent = False\<rparr> (Fn 1) =
     ([CallMethod ''get'' []], Inl (Exn ''boom'')) \<and>
   filter isNext (fst (routeHandler (\<lambda>v k. Undefined) (\<lambda>m. if m = ''get'' then Some (\<lambda>args. Inl (Exn ''boom'')) else None)
     ''get'' None None (Obj []) \<lparr>ref = Inst 0, headersSent = False\<rparr> (Fn 1))) = []"
  by (simp add: routeHandler_def extractParameters_def)

text \<open>
  Claim C10. The claim asks the handlers of lines 187-212 and of lines 231-269 to
  invoke a middleware with the same arguments. The code does not: for a middleware
  that both versions accept, a function that carries its own \<open>use\<close>, the older
  version evaluates \<open>middleware.use.apply(args)\<close>, which runs \<open>use\<close> with the argument
  array as \<open>this\<close> and with no arguments, while the newer version runs \<open>use\<close> with
  the middleware as \<open>this\<close> and with the request, the response and \<open>next\<close> as
  arguments. The theorem evaluates both handlers at such a middleware.
\<close>

theorem middlewareHandler_187_applies_without_arguments:
  "middlewareHandler_187
     (Function \<lparr>fid = 7, call = (\<lambda>this args. Inr (Value Undefined)),
                ownUse = Some (\<lambda>this args. Inr (Value Undefined)),
                protoUse = None, constructorThrows = None\<rparr>) (Obj []) (Inst 0) (Fn 1) =
     [Apply Handler_use (Arr [Obj [], Inst 0, Fn 1]) []] \<and>
   fst (middlewareHandler
     (Function \<lparr>fid = 7, call = (\<lambda>this args. Inr (Value Undefined)),
                ownUse = Some (\<lambda>this args. Inr (Value Undefined)),
                protoUse = None, constructorThrows = None\<rparr>) (Obj []) (Inst 0) (Fn 1) 0) =
     [Apply Handler_use (Fn 7) [Obj [], Inst 0, Fn 1]]"
  by (simp add: middlewareHandler_187_def invokeMiddleware_196_def middlewareHandler_def
      invokeMiddleware_def getMiddlewareInstance_def apply_handler_def catch_next_def)

section \<open>Properties of middleware attachment\<close>

text \<open>
  Claim C3, as amended. When the base path of the metadata is not empty,
  \<open>attachMiddleware\<close> prepends the middleware to the controller-level list, whatever
  method name is given: a list \<open>[A]\<close> becomes \<open>[B, A]\<close>, and the routes are unchanged.
  When the base path is empty and the method name names a declared route group with at
  least one route declaration, it prepends the middleware to the middleware list of the
  first route declaration of that group, and changes nothing else.
\<close>

theorem attachMiddleware_prepends:
  "(meta_url meta \<noteq> [] \<longrightarrow>
      (\<exists>meta'. attachMiddleware meta property B = Inr meta' \<and>
         meta_middleware meta' = B # meta_middleware meta \<and>
         meta_routes meta' = meta_routes meta \<and> meta_url meta' = meta_url meta)) \<and>
   (meta_url meta = [] \<and> p \<noteq> [] \<and> meta_routes meta p = Some g \<and> group_routes g = r # rs \<longrightarrow>
      (\<exists>meta' g' r'. attachMiddleware meta (Some p) B = Inr meta' \<and>
         meta_routes meta' p = Some g' \<and> group_routes g' = r' # rs \<and>
         route_middleware r' = B # route_middleware r \<and>
         route_method r' = route_method r \<and> route_url r' = route_url r \<and>
         group_status g' = group_status g \<and>
         (\<forall>q. q \<noteq> p \<longrightarrow> meta_routes meta' q = meta_routes meta q) \<and>
         meta_middleware meta' = meta_middleware meta \<and> meta_url meta' = meta_url meta))"
  by (simp add: attachMiddleware_def)

text \<open>
  The theorem at a controller mounted at \<open>/users\<close> with the middleware \<open>[A]\<close>, and at a
  controller with the empty base path and a route group \<open>list\<close>.
\<close>

theorem attachMiddleware_prepends_witness:
  "(\<exists>meta'. attachMiddleware \<lparr>meta_url = ''/users'', meta_middleware = [''A''], meta_routes = Map.empty\<rparr>
       None ''B'' = Inr meta' \<and> meta_middleware meta' = [''B'', ''A'']) \<and>
   (\<exists>meta' g' r'. attachMiddleware
       \<lparr>meta_url = [], meta_middleware = [''A''],
        meta_routes = [''list'' \<mapsto> \<lparr>group_routes = [\<lparr>route_method = ''get'', route_url = ''/'',
            route_middleware = [''C'']\<rparr>], group_status = None\<rparr>]\<rparr>
       (Some ''list'') ''B'' = Inr meta' \<and> meta_routes meta' ''list'' = Some g' \<and>
       group_routes g' = [r'] \<and> route_middleware r' = [''B'', ''C''] \<and>
       meta_middleware meta' = [''A''])"
proof -
  let ?m1 = "\<lparr>meta_url = ''/users'', meta_middleware = [''A''], meta_routes = Map.empty\<rparr>"
  let ?r = "\<lparr>route_method = ''get'', route_url = ''/'', route_middleware = [''C'']\<rparr>"
  let ?g = "\<lparr>group_routes = [?r], group_status = None\<rparr>"
  let ?m2 = "\<lparr>meta_url = [], meta_middleware = [''A''], meta_routes = [''list'' \<mapsto> ?g]\<rparr>"
  have a: "\<exists>meta'. attachMiddleware ?m1 None ''B'' = Inr meta' \<and> meta_middleware meta' = [''B'', ''A'']"
    using attachMiddleware_prepends[of ?m1 None "''B''", THEN conjunct1] by auto
  have b: "\<exists>meta' g' r'. attachMiddleware ?m2 (Some ''list'') ''B'' = Inr meta' \<and>
       meta_routes meta' ''list'' = Some g' \<and> group_routes g' = [r'] \<and>
       route_middleware r' = [''B'', ''C''] \<and> meta_middleware meta' = [''A'']"
    using attachMiddleware_prepends[of ?m2 _ "''B''" "''list''" ?g ?r "[]", THEN conjunct2] by auto
  from a b show ?thesis by blast
qed

text \<open>
  Claim C3 as stated fails: with the empty base path and no method name, the
  controller-level list \<open>[A]\<close> stays \<open>[A]\<close> when \<open>B\<close> is attached.
\<close>

theorem attachMiddleware_empty_url_counterexample:
  "attachMiddleware \<lparr>meta_url = [], meta_middleware = [''A''], meta_routes = Map.empty\<rparr> None ''B'' =
     Inr \<lparr>meta_url = [], meta_middleware = [''A''], meta_routes = Map.empty\<rparr>"
  by (simp add: attachMiddleware_def)

text \<open>
  Claim C8, as amended. When the base path of the metadata is empty and the method name
  names no declared route group (and is not one of the names the routes table inherits
  as an object), \<open>attachMiddleware\<close> returns the metadata unchanged and throws
  nothing.
\<close>

theorem attachMiddleware_unknown_method:
  assumes "meta_url meta = []" and "meta_routes meta p = None"
      and "p \<notin> set Object_prototype"
  shows "attachMiddleware meta (Some p) B = Inr meta"
  using assms by (simp add: attachMiddleware_def)

text \<open>The theorem at a controller with the route group \<open>list\<close> and the method name \<open>nope\<close>.\<close>

theorem attachMiddleware_unknown_method_witness:
  "attachMiddleware
     \<lparr>meta_url = [], meta_middleware = [''A''],
      meta_routes = [''list'' \<mapsto> \<lparr>group_routes = [], group_status = None\<rparr>]\<rparr>
     (Some ''nope'') ''B'' =
   Inr \<lparr>meta_url = [], meta_middleware = [''A''],
        meta_routes = [''list'' \<mapsto> \<lparr>group_routes = [], group_status = None\<rparr>]\<rparr>"
  using attachMiddleware_unknown_method[of "\<lparr>meta_url = [], meta_middleware = [''A''],
      meta_routes = [''list'' \<mapsto> \<lparr>group_routes = [], group_status = None\<rparr>]\<rparr>" "''nope''" "''B''"]
  by (simp add: Object_prototype_def)

text \<open>
  A method name the routes table inherits but no route group declares, such as
  \<open>toString\<close>, is outside the theorem: there \<open>property in meta.routes\<close> holds and
  the read of \<open>routes[0]\<close> throws.
\<close>

lemma attachMiddleware_inherited_name:
  "attachMiddleware \<lparr>meta_url = [], meta_middleware = [''A''], meta_routes = Map.empty\<rparr>
     (Some ''toString'') ''B'' = Inl TypeError"
  by (simp add: attachMiddleware_def Object_prototype_def)

text \<open>
  Claim C8 as stated fails when the base path is not empty: the middleware is prepended
  to the controller-level list although the method name names no route group.
\<close>

theorem attachMiddleware_unknown_method_counterexample:
  "attachMiddleware \<lparr>meta_url = ''/users'', meta_middleware = [], meta_routes = Map.empty\<rparr>
     (Some ''nope'') ''B'' =
     Inr \<lparr>meta_url = ''/users'', meta_middleware = [''B''], meta_routes = Map.empty\<rparr>"
  by (simp add: attachMiddleware_def)

end
